theory Spec2Isabelle
  imports Main
begin

section \<open>Values of the settings store\<close>

text \<open>
  The settings store holds JSON values, and \<open>Current.ts\<close> inspects them at run time
  (\<open>typeof path === "string"\<close>, \<open>Array.isArray(path)\<close>, the truthiness test of an
  \<open>if\<close>), so the model works on run-time values and not on the declared TypeScript
  types. Numbers are restricted to the integer-valued ones; no operation of the file
  looks further into a stored number than its truthiness.
\<close>

datatype jsvalue =
    JNull
  | JBool bool
  | JNumber int
  | JString string
  | JArray "jsvalue list"
  | JObject "(string \<times> jsvalue) list"

text \<open>JavaScript's truthiness, as used by \<open>if (...)\<close> on a stored value.\<close>

fun truthy :: "jsvalue \<Rightarrow> bool" where
  "truthy JNull = False"
| "truthy (JBool b) = b"
| "truthy (JNumber n) = (n \<noteq> 0)"
| "truthy (JString s) = (s \<noteq> [])"
| "truthy (JArray xs) = True"
| "truthy (JObject kvs) = True"

section \<open>The host: editor, file system, imported functions\<close>

record workspaceFolder =
  fsPath :: string

record textDocument =
  uri :: string

text \<open>
  The error handed to \<open>reportIssueForError\<close> has type
  \<open>Partial<Error & { code: number }>\<close>: every field may be absent. The code is an
  integer-valued number.
\<close>

record jsError =
  name :: "string option"
  message :: "string option"
  stack :: "string option"
  code :: "int option"

datatype commandArg = UriParse string

datatype hostCall = ExecuteCommand string "commandArg list"

text \<open>
  The state of the host that the file reads and writes: the settings store
  (\<open>vscode.workspace.getConfiguration()\<close>, a key absent from the map is a key whose
  \<open>get\<close> yields \<open>undefined\<close>), the workspace-folder lookup, the file system as seen by
  \<open>existsSync\<close>, and the commands handed to \<open>vscode.commands.executeCommand\<close> so far.
\<close>

record host =
  configuration :: "string \<rightharpoonup> jsvalue"
  getWorkspaceFolder :: "string \<Rightarrow> workspaceFolder option"
  existsSync :: "string \<Rightarrow> bool"
  executed :: "hostCall list"

text \<open>
  The pure functions that \<open>Current.ts\<close> imports and whose code is not part of the file:
  \<open>join\<close> of Node's \<open>path\<close>, \<open>absolutePath\<close> of \<open>./AbsolutePath\<close>, the template tag
  \<open>url\<close> of \<open>./UrlLiteral\<close> (it receives the literal parts and the interpolated
  values) and \<open>JSON.stringify\<close>. They are parameters of the model. \<open>absolutePath\<close> is
  declared on strings, but JavaScript applies it to whatever value the settings store
  holds, so here it takes a run-time value. What it does outside strings is not known
  from the file (it may raise); the model takes it to return a value there, and the
  statements on the \<open>path\<close> setting apply it to a \<open>JString\<close> only.
\<close>

record externals =
  join :: "string \<Rightarrow> string \<Rightarrow> string"
  absolutePath :: "jsvalue \<Rightarrow> jsvalue"
  url :: "string list \<Rightarrow> string list \<Rightarrow> string"
  stringify :: "jsError \<Rightarrow> string"

text \<open>\<open>getConfiguration().get(key, defaultValue)\<close>: the default replaces \<open>undefined\<close> only.\<close>

definition get :: "host \<Rightarrow> string \<Rightarrow> jsvalue \<Rightarrow> jsvalue" where
  "get h key defaultValue =
     (case configuration h key of None \<Rightarrow> defaultValue | Some v \<Rightarrow> v)"

text \<open>
  \<open>getConfiguration().update(key, undefined)\<close> removes the key; \<open>update(key, v)\<close> stores
  \<open>v\<close>. The store is modelled as one layer, and the write as complete when the call
  returns.
\<close>

definition update :: "host \<Rightarrow> string \<Rightarrow> jsvalue option \<Rightarrow> host" where
  "update h key v = h\<lparr>configuration := (configuration h)(key := v)\<rparr>"

definition executeCommand :: "host \<Rightarrow> string \<Rightarrow> commandArg list \<Rightarrow> host" where
  "executeCommand h command args = h\<lparr>executed := executed h @ [ExecuteCommand command args]\<rparr>"

section \<open>The settings accessors\<close>

definition isEnabled :: "host \<Rightarrow> jsvalue" where
  "isEnabled h = get h ''apple-swift-format.enable'' (JBool True)"

definition onlyEnableOnSwiftPMProjects :: "host \<Rightarrow> jsvalue" where
  "onlyEnableOnSwiftPMProjects h =
     get h ''apple-swift-format.onlyEnableOnSwiftPMProjects'' (JBool False)"

definition onlyEnableWithConfig :: "host \<Rightarrow> jsvalue" where
  "onlyEnableWithConfig h = get h ''apple-swift-format.onlyEnableWithConfig'' (JBool False)"

definition resetSwiftFormatPath :: "host \<Rightarrow> host" where
  "resetSwiftFormatPath h = update h ''apple-swift-format.path'' None"

definition configureSwiftFormatPath :: "host \<Rightarrow> host" where
  "configureSwiftFormatPath h = executeCommand h ''workbench.action.openSettings'' []"

text \<open>
  \<open>formatConfigSearchPaths\<close> calls \<open>.map(absolutePath)\<close> on whatever \<open>get\<close> returned. Only
  an array has a \<open>map\<close> method; on any other stored value the call raises a
  \<open>TypeError\<close>. \<open>map\<close> also hands the callback the index and the array, which
  \<open>absolutePath\<close>, called everywhere else with the path alone, is taken to ignore.
\<close>

datatype error = TypeError

definition formatConfigSearchPaths :: "externals \<Rightarrow> host \<Rightarrow> error + jsvalue list" where
  "formatConfigSearchPaths ext h =
     (case get h ''apple-swift-format.configSearchPaths'' (JArray [JString ''.swift-format'']) of
        JArray paths \<Rightarrow> Inr (map (absolutePath ext) paths)
      | _ \<Rightarrow> Inl TypeError)"

section \<open>The path resolver\<close>

definition defaultPath :: "jsvalue list" where
  "defaultPath = [JString ''/usr/bin/env'', JString ''swift-format'']"

text \<open>
  \<open>fallbackGlobalSwiftFormatPath\<close>: the three branches of the source in their order;
  \<open>path[0]\<close> and \<open>path.slice(1)\<close> are the head and the tail of a non-empty array.
\<close>

definition fallbackGlobalSwiftFormatPath :: "externals \<Rightarrow> host \<Rightarrow> jsvalue list" where
  "fallbackGlobalSwiftFormatPath ext h =
     (case get h ''apple-swift-format.path'' (JArray defaultPath) of
        JString s \<Rightarrow> [absolutePath ext (JString s)]
      | JArray (p # ps) \<Rightarrow> absolutePath ext p # ps
      | _ \<Rightarrow> defaultPath)"

definition possibleLocalPaths :: "string list" where
  "possibleLocalPaths = [''.build/release/swift-format'', ''.build/debug/swift-format'']"

text \<open>
  The \<open>for\<close> loop of \<open>swiftFormatPath\<close> over the candidates that are left. \<open>Some\<close> is
  the \<open>return\<close> inside the loop, \<open>None\<close> is the loop running to its end.
\<close>

fun localSearch :: "externals \<Rightarrow> host \<Rightarrow> textDocument \<Rightarrow> string list \<Rightarrow> jsvalue list option" where
  "localSearch ext h document [] = None"
| "localSearch ext h document (path # paths) =
     (case getWorkspaceFolder h (uri document) of
        None \<Rightarrow> localSearch ext h document paths
      | Some workspace \<Rightarrow>
          (let fullPath = join ext (fsPath workspace) path in
           if existsSync h fullPath then Some [absolutePath ext (JString fullPath)]
           else localSearch ext h document paths))"

text \<open>\<open>swiftFormatPath\<close>: \<open>None\<close> is the \<open>null\<close> of the source.\<close>

definition swiftFormatPath :: "externals \<Rightarrow> host \<Rightarrow> textDocument \<Rightarrow> jsvalue list option" where
  "swiftFormatPath ext h document =
     (case localSearch ext h document possibleLocalPaths of
        Some command \<Rightarrow> Some command
      | None \<Rightarrow>
          if truthy (get h ''apple-swift-format.onlyEnableOnSwiftPMProjects'' (JBool False))
          then None
          else Some (fallbackGlobalSwiftFormatPath ext h))"

section \<open>Reporting an issue\<close>

text \<open>
  A number in a template literal: the decimal digits of an integer, with a minus sign
  for a negative one. This is JavaScript's rendering of an integer-valued number of
  magnitude below \<open>10^21\<close>; from there on JavaScript prints an exponent, which the
  model does not cover.
\<close>

fun showNat :: "nat \<Rightarrow> string" where
  "showNat n =
     (if n < 10 then [''0123456789'' ! n]
      else showNat (n div 10) @ [''0123456789'' ! (n mod 10)])"

declare showNat.simps [simp del]

definition showInt :: "int \<Rightarrow> string" where
  "showInt n = (if n < 0 then ''-'' @ showNat (nat (- n)) else showNat (nat n))"

text \<open>
  \<open>String.prototype.replace\<close> with a regular expression that matches a fixed text and
  has no \<open>g\<close> flag: the leftmost occurrence is replaced, the rest of the string is
  kept as it is.
\<close>

fun replaceFirst :: "string \<Rightarrow> string \<Rightarrow> string \<Rightarrow> string" where
  "replaceFirst pat replacement [] = (if pat = [] then replacement else [])"
| "replaceFirst pat replacement (c # cs) =
     (if take (length pat) (c # cs) = pat then replacement @ drop (length pat) (c # cs)
      else c # replaceFirst pat replacement cs)"

text \<open>The text matched by the regular expression of the source: a backslash, then the letter n.\<close>

definition escapedNewline :: string where
  "escapedNewline = [CHR 0x5C, CHR ''n'']"

text \<open>\<open>error.code || ""\<close>, \<open>error.message || ""\<close> and \<open>error.stack || JSON.stringify(error)\<close>.\<close>

definition codeOrEmpty :: "jsError \<Rightarrow> string" where
  "codeOrEmpty e = (case code e of Some n \<Rightarrow> if n \<noteq> 0 then showInt n else [] | None \<Rightarrow> [])"

definition messageOrEmpty :: "jsError \<Rightarrow> string" where
  "messageOrEmpty e = (case message e of Some m \<Rightarrow> if m \<noteq> [] then m else [] | None \<Rightarrow> [])"

definition stackOrStringify :: "externals \<Rightarrow> jsError \<Rightarrow> string" where
  "stackOrStringify ext e =
     (case stack e of Some s \<Rightarrow> if s \<noteq> [] then s else stringify ext e | None \<Rightarrow> stringify ext e)"

definition issueTitle :: "jsError \<Rightarrow> string" where
  "issueTitle e =
     replaceFirst escapedNewline '' '' (''Report '' @ codeOrEmpty e @ '' '' @ messageOrEmpty e)"

definition issueBody :: "externals \<Rightarrow> jsError \<Rightarrow> string" where
  "issueBody ext e = [CHR 0x60] @ stackOrStringify ext e @ [CHR 0x60]"

definition openURL :: "host \<Rightarrow> string \<Rightarrow> host" where
  "openURL h u = executeCommand h ''vscode.open'' [UriParse u]"

definition reportIssueForError :: "externals \<Rightarrow> host \<Rightarrow> jsError \<Rightarrow> host" where
  "reportIssueForError ext h e =
     openURL h
       (url ext
          [''https://github.com/vknabel/vscode-apple-swift-format/issues/new?title='',
           ''&body='', []]
          [issueTitle e, issueBody ext e])"

section \<open>Test doubles\<close>

text \<open>
  A concrete host and concrete imported functions, used to run the definitions: paths
  are joined with a slash, a relative path is made absolute under \<open>/cwd\<close>, and the
  workspace of every document is \<open>/proj\<close>.
\<close>

definition testExternals :: externals where
  "testExternals =
     \<lparr> join = (\<lambda>a b. a @ ''/'' @ b),
       absolutePath = (\<lambda>v. case v of
                          JString s \<Rightarrow> JString (if take 1 s = ''/'' then s else ''/cwd/'' @ s)
                        | _ \<Rightarrow> v),
       url = (\<lambda>literals values. concat (literals @ values)),
       stringify = (\<lambda>e. ''{}'') \<rparr>"

definition testHost :: "string list \<Rightarrow> (string \<times> jsvalue) list \<Rightarrow> host" where
  "testHost files settings =
     \<lparr> configuration = map_of settings,
       getWorkspaceFolder = (\<lambda>u. Some \<lparr> fsPath = ''/proj'' \<rparr>),
       existsSync = (\<lambda>p. p \<in> set files),
       executed = [] \<rparr>"

definition testDocument :: textDocument where
  "testDocument = \<lparr> uri = ''file:///proj/Sources/main.swift'' \<rparr>"

section \<open>Local builds\<close>

text \<open>
  C1. When the document has a workspace folder and both
  \<open>.build/release/swift-format\<close> and \<open>.build/debug/swift-format\<close> exist under its
  root, \<open>swiftFormatPath\<close> returns the release candidate, as a command of one element
  and no argument; when only the debug candidate exists, it returns the debug candidate
  in the same form. The element is the joined path passed through \<open>absolutePath\<close>.
\<close>

theorem swiftFormatPath_prefers_release:
  assumes "getWorkspaceFolder h (uri document) = Some workspace"
  shows "(existsSync h (join ext (fsPath workspace) ''.build/release/swift-format'') \<and>
          existsSync h (join ext (fsPath workspace) ''.build/debug/swift-format'') \<longrightarrow>
            swiftFormatPath ext h document =
              Some [absolutePath ext
                      (JString (join ext (fsPath workspace) ''.build/release/swift-format''))]) \<and>
         (\<not> existsSync h (join ext (fsPath workspace) ''.build/release/swift-format'') \<and>
          existsSync h (join ext (fsPath workspace) ''.build/debug/swift-format'') \<longrightarrow>
            swiftFormatPath ext h document =
              Some [absolutePath ext
                      (JString (join ext (fsPath workspace) ''.build/debug/swift-format''))])"
  using assms by (simp add: swiftFormatPath_def possibleLocalPaths_def)

theorem swiftFormatPath_prefers_release_witness:
  "swiftFormatPath testExternals
     (testHost [''/proj/.build/release/swift-format'', ''/proj/.build/debug/swift-format''] [])
     testDocument
     = Some [JString ''/proj/.build/release/swift-format''] \<and>
   swiftFormatPath testExternals (testHost [''/proj/.build/debug/swift-format''] []) testDocument
     = Some [JString ''/proj/.build/debug/swift-format'']"
  using
    swiftFormatPath_prefers_release
      [of "testHost [''/proj/.build/release/swift-format'', ''/proj/.build/debug/swift-format''] []"
          testDocument "\<lparr> fsPath = ''/proj'' \<rparr>" testExternals]
    swiftFormatPath_prefers_release
      [of "testHost [''/proj/.build/debug/swift-format''] []"
          testDocument "\<lparr> fsPath = ''/proj'' \<rparr>" testExternals]
  by (simp add: testHost_def testExternals_def testDocument_def)

section \<open>Suppression and the global fallback\<close>

text \<open>Writing a setting changes neither the workspace lookup nor the file system.\<close>

lemma get_update_other:
  "key' \<noteq> key \<Longrightarrow> get (update h key v) key' d = get h key' d"
  by (simp add: get_def update_def)

lemma localSearch_update:
  "localSearch ext (update h key v) document paths = localSearch ext h document paths"
  by (induction paths) (simp_all add: update_def Let_def split: option.splits)

lemma localSearch_no_workspace:
  "getWorkspaceFolder h (uri document) = None \<Longrightarrow> localSearch ext h document paths = None"
  by (induction paths) simp_all

lemma localSearch_single:
  "localSearch ext h document paths = Some command \<Longrightarrow> length command = 1"
  by (induction paths) (auto split: option.splits if_splits simp: Let_def)

lemma fallbackGlobalSwiftFormatPath_nonempty:
  "fallbackGlobalSwiftFormatPath ext h \<noteq> []"
  by (simp add: fallbackGlobalSwiftFormatPath_def defaultPath_def split: jsvalue.splits list.splits)

text \<open>
  C2. When no local build is found (the document has no workspace folder, or neither
  \<open>.build/release/swift-format\<close> nor \<open>.build/debug/swift-format\<close> exists under the
  workspace root) and the \<open>onlyEnableOnSwiftPMProjects\<close> setting is \<open>true\<close>,
  \<open>swiftFormatPath\<close> returns \<open>null\<close>, whatever the \<open>path\<close> setting holds: the result
  stays \<open>null\<close> after the \<open>path\<close> key is set to any value or removed.
\<close>

theorem swiftFormatPath_suppressed:
  assumes "case getWorkspaceFolder h (uri document) of
             None \<Rightarrow> True
           | Some workspace \<Rightarrow>
               \<not> existsSync h (join ext (fsPath workspace) ''.build/release/swift-format'') \<and>
               \<not> existsSync h (join ext (fsPath workspace) ''.build/debug/swift-format'')"
    and "onlyEnableOnSwiftPMProjects h = JBool True"
  shows "swiftFormatPath ext h document = None \<and>
         swiftFormatPath ext (update h ''apple-swift-format.path'' v) document = None"
proof -
  have search: "localSearch ext h document possibleLocalPaths = None"
    using assms(1) by (simp add: possibleLocalPaths_def split: option.splits)
  have setting: "truthy (get h ''apple-swift-format.onlyEnableOnSwiftPMProjects'' (JBool False))"
    using assms(2) by (simp add: onlyEnableOnSwiftPMProjects_def)
  have "swiftFormatPath ext h document = None"
    using search setting by (simp add: swiftFormatPath_def)
  moreover have "swiftFormatPath ext (update h ''apple-swift-format.path'' v) document = None"
    using search setting by (simp add: swiftFormatPath_def localSearch_update get_update_other)
  ultimately show ?thesis by simp
qed

theorem swiftFormatPath_suppressed_witness:
  "swiftFormatPath testExternals
     (testHost [] [(''apple-swift-format.onlyEnableOnSwiftPMProjects'', JBool True),
                   (''apple-swift-format.path'', JString ''/opt/bin/swift-format'')])
     testDocument = None \<and>
   swiftFormatPath testExternals
     (update (testHost [] [(''apple-swift-format.onlyEnableOnSwiftPMProjects'', JBool True),
                   (''apple-swift-format.path'', JString ''/opt/bin/swift-format'')])
        ''apple-swift-format.path'' (Some (JArray [JString ''swift-format''])))
     testDocument = None"
  using swiftFormatPath_suppressed
    [where h = "testHost [] [(''apple-swift-format.onlyEnableOnSwiftPMProjects'', JBool True),
                             (''apple-swift-format.path'', JString ''/opt/bin/swift-format'')]"
       and document = testDocument and ext = testExternals
       and v = "Some (JArray [JString ''swift-format''])"]
  by (simp add: testHost_def testExternals_def testDocument_def onlyEnableOnSwiftPMProjects_def get_def)

text \<open>
  C3. For a document with no workspace folder the search for a local build is skipped:
  the result does not depend on the file system, it is the global fallback when
  \<open>onlyEnableOnSwiftPMProjects\<close> is \<open>false\<close> and \<open>null\<close> when it is \<open>true\<close>.
\<close>

theorem swiftFormatPath_without_workspace:
  assumes "getWorkspaceFolder h (uri document) = None"
  shows "(onlyEnableOnSwiftPMProjects h = JBool False \<longrightarrow>
            swiftFormatPath ext h document = Some (fallbackGlobalSwiftFormatPath ext h)) \<and>
         (onlyEnableOnSwiftPMProjects h = JBool True \<longrightarrow> swiftFormatPath ext h document = None) \<and>
         swiftFormatPath ext (h\<lparr>existsSync := files\<rparr>) document = swiftFormatPath ext h document"
proof -
  have "localSearch ext h document possibleLocalPaths = None"
    using assms by (rule localSearch_no_workspace)
  moreover have "localSearch ext (h\<lparr>existsSync := files\<rparr>) document possibleLocalPaths = None"
    using assms by (simp add: localSearch_no_workspace)
  ultimately show ?thesis
    by (simp add: swiftFormatPath_def onlyEnableOnSwiftPMProjects_def get_def
        fallbackGlobalSwiftFormatPath_def)
qed


theorem swiftFormatPath_without_workspace_witness:
  "swiftFormatPath testExternals
     ((testHost [''/proj/.build/release/swift-format''] [])\<lparr>getWorkspaceFolder := (\<lambda>u. None)\<rparr>)
     testDocument = Some [JString ''/usr/bin/env'', JString ''swift-format''] \<and>
   swiftFormatPath testExternals
     ((testHost [''/proj/.build/release/swift-format'']
         [(''apple-swift-format.onlyEnableOnSwiftPMProjects'', JBool True)])
        \<lparr>getWorkspaceFolder := (\<lambda>u. None)\<rparr>)
     testDocument = None"
  using
    swiftFormatPath_without_workspace
      [where h = "(testHost [''/proj/.build/release/swift-format''] [])
                    \<lparr>getWorkspaceFolder := (\<lambda>u. None)\<rparr>"
         and document = testDocument and ext = testExternals]
    swiftFormatPath_without_workspace
      [where h = "(testHost [''/proj/.build/release/swift-format'']
                     [(''apple-swift-format.onlyEnableOnSwiftPMProjects'', JBool True)])
                    \<lparr>getWorkspaceFolder := (\<lambda>u. None)\<rparr>"
         and document = testDocument and ext = testExternals]
  by (simp add: testHost_def testExternals_def onlyEnableOnSwiftPMProjects_def get_def
      fallbackGlobalSwiftFormatPath_def defaultPath_def)

section \<open>The global default resolution\<close>

text \<open>
  C4. A stored \<open>path\<close> that is a single string resolves to the one-element command
  holding that string normalized by \<open>absolutePath\<close>; a stored non-empty sequence of
  strings resolves to its first element normalized, followed by the remaining elements
  unchanged.
\<close>

theorem fallbackGlobalSwiftFormatPath_string_or_strings:
  "(configuration h ''apple-swift-format.path'' = Some (JString s) \<longrightarrow>
      fallbackGlobalSwiftFormatPath ext h = [absolutePath ext (JString s)]) \<and>
   (configuration h ''apple-swift-format.path'' = Some (JArray (map JString (p # ps))) \<longrightarrow>
      fallbackGlobalSwiftFormatPath ext h = absolutePath ext (JString p) # map JString ps)"
  by (simp add: fallbackGlobalSwiftFormatPath_def get_def)

theorem fallbackGlobalSwiftFormatPath_string_or_strings_witness:
  "fallbackGlobalSwiftFormatPath testExternals
     (testHost [] [(''apple-swift-format.path'', JString ''/opt/bin/swift-format'')])
     = [JString ''/opt/bin/swift-format''] \<and>
   fallbackGlobalSwiftFormatPath testExternals
     (testHost [] [(''apple-swift-format.path'',
                    JArray [JString ''swift-format'', JString ''--configuration'', JString ''strict''])])
     = [JString ''/cwd/swift-format'', JString ''--configuration'', JString ''strict'']"
  using
    fallbackGlobalSwiftFormatPath_string_or_strings
      [where h = "testHost [] [(''apple-swift-format.path'', JString ''/opt/bin/swift-format'')]"
         and s = "''/opt/bin/swift-format''" and ext = testExternals]
    fallbackGlobalSwiftFormatPath_string_or_strings
      [where h = "testHost [] [(''apple-swift-format.path'',
                    JArray [JString ''swift-format'', JString ''--configuration'', JString ''strict''])]"
         and p = "''swift-format''" and ps = "[''--configuration'', ''strict'']"
         and ext = testExternals]
  by (simp add: testHost_def testExternals_def)

text \<open>
  The stored sequence \<open>["swift-format", 42]\<close> contains a non-string element, and the
  resolution does not fall back to the hard-coded default: \<open>Array.isArray(path) &&
  path.length > 0\<close> holds, so the first element is normalized and \<open>42\<close> is kept as an
  argument.
\<close>

theorem fallbackGlobalSwiftFormatPath_mixed_array_counterexample:
  "fallbackGlobalSwiftFormatPath testExternals
     (testHost [] [(''apple-swift-format.path'', JArray [JString ''swift-format'', JNumber 42])])
     = [JString ''/cwd/swift-format'', JNumber 42] \<and>
   fallbackGlobalSwiftFormatPath testExternals
     (testHost [] [(''apple-swift-format.path'', JArray [JString ''swift-format'', JNumber 42])])
     \<noteq> [JString ''/usr/bin/env'', JString ''swift-format'']"
  by (simp add: fallbackGlobalSwiftFormatPath_def get_def testHost_def testExternals_def)

text \<open>
  C5, amended. A stored \<open>path\<close> that is neither a string nor a non-empty sequence (the
  empty sequence, \<open>null\<close>, a boolean, a number, an object) resolves to exactly the
  hard-coded default \<open>["/usr/bin/env", "swift-format"]\<close>, with no normalization. A
  non-empty sequence whose first element is a string is never treated as malformed,
  whatever its remaining elements are: the first element goes through \<open>absolutePath\<close>
  and the remaining elements are returned unchanged. Nothing is stated for a sequence
  whose first element is not a string, where the outcome is that of \<open>absolutePath\<close>
  outside its declared domain.
\<close>

theorem fallbackGlobalSwiftFormatPath_other_shapes:
  assumes "configuration h ''apple-swift-format.path'' = Some v"
  shows "((\<forall>s. v \<noteq> JString s) \<and> (\<forall>p ps. v \<noteq> JArray (p # ps)) \<longrightarrow>
            fallbackGlobalSwiftFormatPath ext h = [JString ''/usr/bin/env'', JString ''swift-format'']) \<and>
         (\<forall>p ps. v = JArray (JString p # ps) \<longrightarrow>
            fallbackGlobalSwiftFormatPath ext h = absolutePath ext (JString p) # ps)"
  using assms
  by (simp add: fallbackGlobalSwiftFormatPath_def get_def defaultPath_def
      split: jsvalue.splits list.splits)

theorem fallbackGlobalSwiftFormatPath_other_shapes_witness:
  "fallbackGlobalSwiftFormatPath testExternals
     (testHost [] [(''apple-swift-format.path'', JArray [])])
     = [JString ''/usr/bin/env'', JString ''swift-format''] \<and>
   fallbackGlobalSwiftFormatPath testExternals
     (testHost [] [(''apple-swift-format.path'', JObject [(''bin'', JString ''swift-format'')])])
     = [JString ''/usr/bin/env'', JString ''swift-format''] \<and>
   fallbackGlobalSwiftFormatPath testExternals
     (testHost [] [(''apple-swift-format.path'',
                    JArray [JString ''bin/swift-format'', JBool True, JNumber 7])])
     = [JString ''/cwd/bin/swift-format'', JBool True, JNumber 7]"
  using
    fallbackGlobalSwiftFormatPath_other_shapes
      [where h = "testHost [] [(''apple-swift-format.path'', JArray [])]"
         and v = "JArray []" and ext = testExternals]
    fallbackGlobalSwiftFormatPath_other_shapes
      [where h = "testHost [] [(''apple-swift-format.path'', JObject [(''bin'', JString ''swift-format'')])]"
         and v = "JObject [(''bin'', JString ''swift-format'')]" and ext = testExternals]
    fallbackGlobalSwiftFormatPath_other_shapes
      [where h = "testHost [] [(''apple-swift-format.path'',
                    JArray [JString ''bin/swift-format'', JBool True, JNumber 7])]"
         and v = "JArray [JString ''bin/swift-format'', JBool True, JNumber 7]"
         and ext = testExternals]
  by (simp add: testHost_def testExternals_def)

text \<open>
  C6. For every document, settings store and file system, a command returned by
  \<open>swiftFormatPath\<close> (a result other than \<open>null\<close>) has at least one element.
\<close>

theorem swiftFormatPath_command_nonempty:
  "swiftFormatPath ext h document = Some command \<Longrightarrow> 1 \<le> length command"
proof -
  assume result: "swiftFormatPath ext h document = Some command"
  show ?thesis
  proof (cases "localSearch ext h document possibleLocalPaths")
    case None
    with result have "command = fallbackGlobalSwiftFormatPath ext h"
      by (simp add: swiftFormatPath_def split: if_splits)
    then have "command \<noteq> []"
      by (simp add: fallbackGlobalSwiftFormatPath_nonempty)
    then show ?thesis
      by (cases command) simp_all
  next
    case (Some local)
    with result have "localSearch ext h document possibleLocalPaths = Some command"
      by (simp add: swiftFormatPath_def)
    then show ?thesis
      by (simp add: localSearch_single)
  qed
qed

theorem swiftFormatPath_command_nonempty_witness:
  "swiftFormatPath testExternals (testHost [] []) testDocument
     = Some [JString ''/usr/bin/env'', JString ''swift-format''] \<and>
   1 \<le> length [JString ''/usr/bin/env'', JString ''swift-format'']"
proof -
  have run: "swiftFormatPath testExternals (testHost [] []) testDocument
               = Some [JString ''/usr/bin/env'', JString ''swift-format'']"
    by (simp add: swiftFormatPath_def possibleLocalPaths_def fallbackGlobalSwiftFormatPath_def
        defaultPath_def get_def testHost_def testExternals_def testDocument_def)
  from swiftFormatPath_command_nonempty [OF run] run show ?thesis by simp
qed


section \<open>Settings accessors\<close>

text \<open>
  C7. From every settings store, \<open>resetSwiftFormatPath\<close> followed by the global default
  resolution gives the result of the resolution on a store where the \<open>path\<close> key is not
  set: the read falls through to the default \<open>["/usr/bin/env", "swift-format"]\<close>, which
  then takes the branch of a non-empty sequence.
\<close>

theorem resetSwiftFormatPath_then_fallback:
  assumes "configuration unset ''apple-swift-format.path'' = None"
  shows "fallbackGlobalSwiftFormatPath ext (resetSwiftFormatPath h) =
           fallbackGlobalSwiftFormatPath ext unset \<and>
         get (resetSwiftFormatPath h) ''apple-swift-format.path'' (JArray defaultPath) =
           JArray [JString ''/usr/bin/env'', JString ''swift-format''] \<and>
         fallbackGlobalSwiftFormatPath ext (resetSwiftFormatPath h) =
           [absolutePath ext (JString ''/usr/bin/env''), JString ''swift-format'']"
  using assms
  by (simp add: fallbackGlobalSwiftFormatPath_def resetSwiftFormatPath_def update_def get_def
      defaultPath_def)

theorem resetSwiftFormatPath_then_fallback_witness:
  "fallbackGlobalSwiftFormatPath testExternals
     (resetSwiftFormatPath
        (testHost [] [(''apple-swift-format.path'', JString ''/opt/bin/swift-format'')]))
     = fallbackGlobalSwiftFormatPath testExternals (testHost [] []) \<and>
   fallbackGlobalSwiftFormatPath testExternals
     (resetSwiftFormatPath
        (testHost [] [(''apple-swift-format.path'', JString ''/opt/bin/swift-format'')]))
     = [JString ''/usr/bin/env'', JString ''swift-format'']"
proof -
  have unset: "configuration (testHost [] []) ''apple-swift-format.path'' = None"
    by (simp add: testHost_def)
  have normal: "absolutePath testExternals (JString ''/usr/bin/env'') = JString ''/usr/bin/env''"
    by (simp add: testExternals_def)
  from resetSwiftFormatPath_then_fallback
         [OF unset,
          where h = "testHost [] [(''apple-swift-format.path'', JString ''/opt/bin/swift-format'')]"
            and ext = testExternals]
  show ?thesis
    by (auto simp add: normal)
qed

text \<open>
  C8. For every stored \<open>configSearchPaths\<close> sequence \<open>formatConfigSearchPaths\<close> returns
  the sequence of its elements passed through \<open>absolutePath\<close>, in the stored order; with
  no stored setting it returns the single element \<open>absolutePath(".swift-format")\<close>.
\<close>

theorem formatConfigSearchPaths_maps_absolutePath:
  "(configuration h ''apple-swift-format.configSearchPaths'' = Some (JArray paths) \<longrightarrow>
      formatConfigSearchPaths ext h = Inr (map (absolutePath ext) paths)) \<and>
   (configuration h ''apple-swift-format.configSearchPaths'' = None \<longrightarrow>
      formatConfigSearchPaths ext h = Inr [absolutePath ext (JString ''.swift-format'')])"
  by (simp add: formatConfigSearchPaths_def get_def)

theorem formatConfigSearchPaths_maps_absolutePath_witness:
  "formatConfigSearchPaths testExternals
     (testHost [] [(''apple-swift-format.configSearchPaths'',
                    JArray [JString ''b/.swift-format'', JString ''/a/.swift-format''])])
     = Inr [JString ''/cwd/b/.swift-format'', JString ''/a/.swift-format''] \<and>
   formatConfigSearchPaths testExternals (testHost [] [])
     = Inr [JString ''/cwd/.swift-format'']"
  using
    formatConfigSearchPaths_maps_absolutePath
      [where h = "testHost [] [(''apple-swift-format.configSearchPaths'',
                    JArray [JString ''b/.swift-format'', JString ''/a/.swift-format''])]"
         and paths = "[JString ''b/.swift-format'', JString ''/a/.swift-format'']"
         and ext = testExternals]
    formatConfigSearchPaths_maps_absolutePath
      [where h = "testHost [] []" and ext = testExternals]
  by (simp add: testHost_def testExternals_def)

section \<open>The title of an issue report\<close>

text \<open>
  C9. The title of the report should have every literal escaped newline (a backslash
  followed by n) replaced by a space. The regular expression of the source has no \<open>g\<close>
  flag: for the error with code \<open>1\<close> and a message holding two escaped newlines, only
  the first one is replaced and the second one stays in the title.
\<close>

theorem issueTitle_replaces_first_escape_only:
  "issueTitle \<lparr> name = None,
                message = Some (''a'' @ escapedNewline @ ''b'' @ escapedNewline @ ''c''),
                stack = None, code = Some 1 \<rparr>
     = ''Report 1 a b'' @ escapedNewline @ ''c'' \<and>
   issueTitle \<lparr> name = None,
                message = Some (''a'' @ escapedNewline @ ''b'' @ escapedNewline @ ''c''),
                stack = None, code = Some 1 \<rparr>
     \<noteq> ''Report 1 a b c''"
  by (simp add: issueTitle_def codeOrEmpty_def messageOrEmpty_def showInt_def showNat.simps
      escapedNewline_def)

text \<open>
  C10. An error whose code is the number \<open>0\<close> gets the same title as the error without
  a code, and an error whose message is the empty string gets the same title as the
  error without a message: a falsy field is rendered as the empty string.
\<close>

theorem issueTitle_falsy_field_as_absent:
  "issueTitle (e\<lparr>code := Some 0\<rparr>) = issueTitle (e\<lparr>code := None\<rparr>) \<and>
   issueTitle (e\<lparr>message := Some []\<rparr>) = issueTitle (e\<lparr>message := None\<rparr>)"
  by (simp add: issueTitle_def codeOrEmpty_def messageOrEmpty_def)

theorem issueTitle_falsy_field_as_absent_witness:
  "issueTitle \<lparr> name = None, message = Some ''boom'', stack = None, code = Some 0 \<rparr>
     = ''Report  boom'' \<and>
   issueTitle \<lparr> name = None, message = Some ''boom'', stack = None, code = None \<rparr>
     = ''Report  boom'' \<and>
   issueTitle \<lparr> name = None, message = Some [], stack = None, code = Some 2 \<rparr>
     = issueTitle \<lparr> name = None, message = None, stack = None, code = Some 2 \<rparr>"
  using
    issueTitle_falsy_field_as_absent
      [where e = "\<lparr> name = None, message = Some ''boom'', stack = None, code = None \<rparr>"]
    issueTitle_falsy_field_as_absent
      [where e = "\<lparr> name = None, message = None, stack = None, code = Some 2 \<rparr>"]
  by (simp add: issueTitle_def codeOrEmpty_def messageOrEmpty_def escapedNewline_def)

end
